theory Spec2Isabelle
  imports Main
begin

section \<open>Session supervisor of inconnu.js: data model\<close>

text \<open>
  The module keeps two in-memory maps keyed by the sanitized number
  (\<open>activeSockets\<close>, \<open>socketCreationTime\<close>), a table of boolean flags on the global
  object (\<open>global['connecting_<n>']\<close>), and talks to a credential store, the local
  file system and the protocol client. All of it is one explicit \<open>world\<close> value that
  every operation takes and returns. JavaScript here is single threaded: the code
  between two \<open>await\<close>s runs without interleaving, so a function that reaches its
  \<open>return\<close> without awaiting is one atomic step of the model.
\<close>

subsection \<open>Strings\<close>

definition isDigit :: "char \<Rightarrow> bool" where
  "isDigit c = (c \<in> set ''0123456789'')"

text \<open>\<^verbatim>\<open>number.replace(/[^0-9]/g, '')\<close>\<close>

definition sanitize :: "string \<Rightarrow> string" where
  "sanitize number = filter isDigit number"

text \<open>\<^verbatim>\<open>s.startsWith(p)\<close> and \<^verbatim>\<open>s.includes(sub)\<close>\<close>

definition startsWith :: "'a list \<Rightarrow> 'a list \<Rightarrow> bool" where
  "startsWith s p = (take (length p) s = p)"

fun str_includes :: "'a list \<Rightarrow> 'a list \<Rightarrow> bool" where
  "str_includes [] sub = (sub = [])"
| "str_includes (c # cs) sub = (startsWith (c # cs) sub \<or> str_includes cs sub)"

subsection \<open>Result sinks (the \<open>res\<close> objects)\<close>

datatype body =
    B_already_connected "int option" int
  | B_connection_in_progress
  | B_new_pairing string
  | B_pairing_failed string
  | B_reconnecting
  | B_internal_error string
  | B_number_required
  | B_not_found
  | B_disconnected
  | B_disconnect_failed

text \<open>
  An Express response sets \<open>headersSent\<close> when \<open>json\<close> is called; the mock sinks built
  by the reconnect paths have \<open>json: () => {}\<close> and a constant \<open>headersSent: false\<close>.
  \<open>sent\<close> lists the (status code, body) pairs delivered so far.
\<close>

record res =
  headersSent :: bool
  mock :: bool
  sent :: "(nat \<times> body) list"

definition fresh_res :: "bool \<Rightarrow> res" where
  "fresh_res m = \<lparr>headersSent = False, mock = m, sent = []\<rparr>"

definition json :: "nat \<Rightarrow> body \<Rightarrow> res \<Rightarrow> res" where
  "json code b r = (if mock r then r else r\<lparr>headersSent := True, sent := sent r @ [(code, b)]\<rparr>)"

subsection \<open>Sockets, timers and the world\<close>

text \<open>
  One record per object returned by \<open>makeWASocket\<close>. \<open>restartAttempts\<close> is the
  variable that \<open>setupAutoRestart(socket, number)\<close> declares in its closure: there is one
  per socket, initialised to 0 when the socket is set up. \<open>listening\<close> is false once
  \<open>socket.ev.removeAllListeners()\<close> has run; \<open>ws_closed\<close> once \<open>socket.ws.close()\<close> has.
\<close>

record socket =
  for_number :: string
  usePairingCode :: bool
  creds :: "string option"
  restartAttempts :: nat
  listening :: bool
  ws_closed :: bool

datatype level = Info | Success | Error | Warning | Debug

text \<open>A pending \<open>setTimeout\<close> callback: due time, socket, sanitized number, sink.\<close>

datatype timer = PairingTimer int nat string "nat option"

record world =
  activeSockets :: "string \<rightharpoonup> nat"
  socketCreationTime :: "string \<rightharpoonup> int"
  global_flags :: "string \<Rightarrow> bool"
  sockets :: "nat \<rightharpoonup> socket"
  next_socket :: nat
  sinks :: "nat \<Rightarrow> res"
  next_sink :: nat
  mongo_sessions :: "string \<rightharpoonup> string"
  mongo_numbers :: "string set"
  sessionDirs :: "string \<rightharpoonup> string option"
  timers :: "timer list"
  clock :: int
  logs :: "(level \<times> string) list"

text \<open>
  \<open>inconnuLog(message, type)\<close> prints a line; the lines are kept in \<open>logs\<close>. The
  messages below carry the fixed text and the number of the source's templates, not
  the counters and status codes interpolated into some of them.
\<close>

definition inconnuLog :: "string \<Rightarrow> level \<Rightarrow> world \<Rightarrow> world" where
  "inconnuLog message type w = w\<lparr>logs := logs w @ [(type, message)]\<rparr>"

text \<open>\<^verbatim>\<open>await delay(ms)\<close>: time passes.\<close>

definition delay :: "int \<Rightarrow> world \<Rightarrow> world" where
  "delay ms w = w\<lparr>clock := clock w + ms\<rparr>"

text \<open>\<^verbatim>\<open>res.status(code).json(b)\<close> on the sink with reference \<open>i\<close>.\<close>

definition res_json :: "nat \<Rightarrow> nat \<Rightarrow> body \<Rightarrow> world \<Rightarrow> world" where
  "res_json i code b w = w\<lparr>sinks := (sinks w)(i := json code b (sinks w i))\<rparr>"

text \<open>
  \<^verbatim>\<open>if (res && !res.headersSent) res.json(b)\<close>, where \<open>res\<close> may be \<open>null\<close> (\<open>None\<close>).
\<close>

definition deliver :: "nat option \<Rightarrow> body \<Rightarrow> (nat \<Rightarrow> res) \<Rightarrow> (nat \<Rightarrow> res)" where
  "deliver r b sk =
     (case r of
        None \<Rightarrow> sk
      | Some i \<Rightarrow> if headersSent (sk i) then sk else sk(i := json 200 b (sk i)))"

definition respond :: "nat option \<Rightarrow> body \<Rightarrow> world \<Rightarrow> world" where
  "respond r b w = w\<lparr>sinks := deliver r b (sinks w)\<rparr>"

subsection \<open>Session registry queries\<close>

definition isNumberAlreadyConnected :: "world \<Rightarrow> string \<Rightarrow> bool" where
  "isNumberAlreadyConnected w number = (activeSockets w (sanitize number) \<noteq> None)"

text \<open>
  \<open>connectionTime\<close> holds the timestamp that the source renders with
  \<open>new Date(t).toLocaleString()\<close> (a locale-dependent rendering), \<open>None\<close> for \<open>null\<close>.
  The test \<open>connectionTime ? ... : ...\<close> is JavaScript truthiness: an absent entry and
  the timestamp 0 both take the second branch.
\<close>

record connectionStatus =
  isConnected :: bool
  connectionTime :: "int option"
  uptime :: int

definition getConnectionStatus :: "world \<Rightarrow> string \<Rightarrow> connectionStatus" where
  "getConnectionStatus w number =
     (let sanitizedNumber = sanitize number;
          isConnected = (activeSockets w sanitizedNumber \<noteq> None);
          connectionTime = socketCreationTime w sanitizedNumber
      in case connectionTime of
           None \<Rightarrow> \<lparr>isConnected = isConnected, connectionTime = None, uptime = 0\<rparr>
         | Some t \<Rightarrow>
             if t = 0 then \<lparr>isConnected = isConnected, connectionTime = None, uptime = 0\<rparr>
             else \<lparr>isConnected = isConnected, connectionTime = Some t,
                   uptime = (clock w - t) div 1000\<rparr>)"

subsection \<open>External collaborators\<close>

text \<open>
  The store adapter \<open>./lib/database\<close> is not among the sources. The spec describes it
  as a key-value credential store and a roster of tenants, keyed by the sanitized
  number; its operations are total here.
\<close>

text \<open>
  Modelled from the spec: \<open>getSessionFromMongoDB\<close> is missing;
  \<open>getCredential(tenantId) -> blob|absent\<close>.
\<close>

definition getSessionFromMongoDB :: "world \<Rightarrow> string \<Rightarrow> string option" where
  "getSessionFromMongoDB w n = mongo_sessions w n"

text \<open>
  Modelled from the spec: \<open>deleteSessionFromMongoDB\<close> is missing;
  \<open>deleteCredential(tenantId)\<close>.
\<close>

definition deleteSessionFromMongoDB :: "string \<Rightarrow> world \<Rightarrow> world" where
  "deleteSessionFromMongoDB n w = w\<lparr>mongo_sessions := (mongo_sessions w)(n := None)\<rparr>"

text \<open>
  Modelled from the spec: \<open>addNumberToMongoDB\<close> is missing; \<open>addTenant(tenantId)\<close> adds
  to the roster of known tenants.
\<close>

definition addNumberToMongoDB :: "string \<Rightarrow> world \<Rightarrow> world" where
  "addNumberToMongoDB n w = w\<lparr>mongo_numbers := insert n (mongo_numbers w)\<rparr>"

text \<open>
  Modelled from the spec: \<open>removeNumberFromMongoDB\<close> is missing;
  \<open>removeTenant(tenantId)\<close> removes from the roster.
\<close>

definition removeNumberFromMongoDB :: "string \<Rightarrow> world \<Rightarrow> world" where
  "removeNumberFromMongoDB n w = w\<lparr>mongo_numbers := mongo_numbers w - {n}\<rparr>"

text \<open>
  The file system and the protocol client are library code. A call to them inside a
  \<open>try\<close> block of the source may throw; \<open>throws env c\<close> gives the \<open>message\<close> of the
  exception when call \<open>c\<close> throws. \<open>requestPairingCode env\<close> is the client's answer to
  a pairing-code request: \<open>Inr code\<close>, or \<open>Inl message\<close> when it throws.
\<close>

datatype call = LocalCache | AuthState | MakeSocket | WsClose

record env =
  throws :: "call \<Rightarrow> string option"
  requestPairingCode :: "string \<Rightarrow> string + string"

text \<open>
  \<open>sessionDirs w n\<close> is the directory \<open>session/session_<n>\<close>: \<open>None\<close> when it does not
  exist, \<open>Some None\<close> when it exists without \<open>creds.json\<close>, \<open>Some (Some b)\<close> when
  \<open>creds.json\<close> holds \<open>b\<close>. \<open>useMultiFileAuthState\<close> creates the directory when it
  is missing and returns the stored credentials (\<open>None\<close>: freshly initialised ones).
\<close>

definition useMultiFileAuthState :: "string \<Rightarrow> world \<Rightarrow> string option \<times> world" where
  "useMultiFileAuthState n w =
     (case sessionDirs w n of
        None \<Rightarrow> (None, w\<lparr>sessionDirs := (sessionDirs w)(n \<mapsto> None)\<rparr>)
      | Some c \<Rightarrow> (c, w))"

definition makeWASocket :: "string option \<Rightarrow> bool \<Rightarrow> world \<Rightarrow> nat \<times> world" where
  "makeWASocket state_creds pairing w =
     (next_socket w,
      w\<lparr>sockets := (sockets w)(next_socket w \<mapsto>
            \<lparr>for_number = [], usePairingCode = pairing, creds = state_creds,
             restartAttempts = 0, listening = False, ws_closed = False\<rparr>),
        next_socket := Suc (next_socket w)\<rparr>)"

definition removeAllListeners :: "nat \<Rightarrow> world \<Rightarrow> world" where
  "removeAllListeners s w =
     (case sockets w s of None \<Rightarrow> w
      | Some sk \<Rightarrow> w\<lparr>sockets := (sockets w)(s \<mapsto> sk\<lparr>listening := False\<rparr>)\<rparr>)"

definition ws_close :: "nat \<Rightarrow> world \<Rightarrow> world" where
  "ws_close s w =
     (case sockets w s of None \<Rightarrow> w
      | Some sk \<Rightarrow> w\<lparr>sockets := (sockets w)(s \<mapsto> sk\<lparr>ws_closed := True\<rparr>)\<rparr>)"

section \<open>The supervisor: inconnuboyPair\<close>

text \<open>Step 1 of the \<open>try\<close> block: clean the local files or restore them from the store.\<close>

definition restore_or_clean ::
  "env \<Rightarrow> string \<Rightarrow> string option \<Rightarrow> world \<Rightarrow> string option \<times> world" where
  "restore_or_clean env sanitizedNumber existingSession w =
     (case existingSession of
        None \<Rightarrow>
          (let w1 = inconnuLog (''No MongoDB session found for '' @ sanitizedNumber
                                  @ '' - requiring NEW pairing'') Info w
           in case throws env LocalCache of
                Some e \<Rightarrow> (Some e, w1)
              | None \<Rightarrow>
                  if sessionDirs w1 sanitizedNumber \<noteq> None
                  then (None, inconnuLog (''Cleaned leftover local session for '' @ sanitizedNumber)
                                Info (w1\<lparr>sessionDirs := (sessionDirs w1)(sanitizedNumber := None)\<rparr>))
                  else (None, w1))
      | Some blob \<Rightarrow>
          (case throws env LocalCache of
             Some e \<Rightarrow> (Some e, w)
           | None \<Rightarrow>
               (None, inconnuLog (''Restored existing session from MongoDB for '' @ sanitizedNumber)
                        Success (w\<lparr>sessionDirs := (sessionDirs w)(sanitizedNumber \<mapsto> Some blob)\<rparr>))))"

text \<open>Step 3: \<open>socketCreationTime.set(n, Date.now()); activeSockets.set(n, conn)\<close>.\<close>

definition register :: "string \<Rightarrow> nat \<Rightarrow> world \<Rightarrow> world" where
  "register sanitizedNumber conn w =
     w\<lparr>socketCreationTime := (socketCreationTime w)(sanitizedNumber \<mapsto> clock w),
       activeSockets := (activeSockets w)(sanitizedNumber \<mapsto> conn)\<rparr>"

definition unregister :: "string \<Rightarrow> world \<Rightarrow> world" where
  "unregister sanitizedNumber w =
     w\<lparr>activeSockets := (activeSockets w)(sanitizedNumber := None),
       socketCreationTime := (socketCreationTime w)(sanitizedNumber := None)\<rparr>"

text \<open>
  Step 4 and the later \<open>conn.ev.on\<close> calls: the listeners are attached, and
  \<open>setupAutoRestart(conn, number)\<close> starts its own counter at 0. The flag
  \<open>listening\<close> stands for all listeners of the socket; those for calls, presence,
  deleted messages and credential updates do not touch the Registry, the lock or the
  roster and have no definition of their own here.
\<close>

definition setupAutoRestart :: "nat \<Rightarrow> string \<Rightarrow> world \<Rightarrow> world" where
  "setupAutoRestart conn number w =
     (case sockets w conn of None \<Rightarrow> w
      | Some sk \<Rightarrow> w\<lparr>sockets := (sockets w)(conn \<mapsto>
                       sk\<lparr>for_number := number, restartAttempts := 0, listening := True\<rparr>)\<rparr>)"

text \<open>\<^verbatim>\<open>setTimeout(callback, ms)\<close> for the pairing-code callback of step 6.\<close>

definition setTimeout :: "int \<Rightarrow> nat \<Rightarrow> string \<Rightarrow> nat option \<Rightarrow> world \<Rightarrow> world" where
  "setTimeout ms conn sanitizedNumber res w =
     w\<lparr>timers := timers w @ [PairingTimer (clock w + ms) conn sanitizedNumber res]\<rparr>"

text \<open>
  The body of the \<open>try\<close> block after the lock is taken. The result is the message of
  the exception that left the block, if any, and the world at that point.
\<close>

definition connect_body ::
  "env \<Rightarrow> string \<Rightarrow> string \<Rightarrow> nat option \<Rightarrow> world \<Rightarrow> string option \<times> world" where
  "connect_body env number sanitizedNumber res w =
     (let existingSession = getSessionFromMongoDB w sanitizedNumber in
      case restore_or_clean env sanitizedNumber existingSession w of
        (Some e, w1) \<Rightarrow> (Some e, w1)
      | (None, w1) \<Rightarrow>
      (case throws env AuthState of
        Some e \<Rightarrow> (Some e, w1)
      | None \<Rightarrow>
      (case useMultiFileAuthState sanitizedNumber w1 of (state_creds, w2) \<Rightarrow>
      (case throws env MakeSocket of
        Some e \<Rightarrow> (Some e, w2)
      | None \<Rightarrow>
      (case makeWASocket state_creds (existingSession = None) w2 of (conn, w3) \<Rightarrow>
       let w4 = register sanitizedNumber conn w3;
           w5 = setupAutoRestart conn number w4
       in if existingSession = None
          then (None, setTimeout 3000 conn sanitizedNumber res w5)
          else (None, respond res B_reconnecting w5))))))"

text \<open>The \<open>finally\<close> block: \<^verbatim>\<open>if (connectionLockKey) global[connectionLockKey] = false\<close>.\<close>

definition release :: "string option \<Rightarrow> world \<Rightarrow> world" where
  "release connectionLockKey w =
     (case connectionLockKey of
        None \<Rightarrow> w
      | Some k \<Rightarrow> if k = [] then w else w\<lparr>global_flags := (global_flags w)(k := False)\<rparr>)"

text \<open>
  \<open>connectionLockKey\<close> is declared before the \<open>try\<close> and is \<open>undefined\<close> (\<open>None\<close>) on
  the already-connected return; it is assigned on the line before the test of the
  flag, so it is set on the connection-in-progress return.
\<close>

definition inconnuboyPair :: "env \<Rightarrow> string \<Rightarrow> nat option \<Rightarrow> world \<Rightarrow> world" where
  "inconnuboyPair env number res w =
     (let sanitizedNumber = sanitize number in
      if isNumberAlreadyConnected w sanitizedNumber then
        (let w1 = inconnuLog (sanitizedNumber @ '' is already connected, skipping...'') Info w;
             status = getConnectionStatus w1 sanitizedNumber
         in release None
              (respond res (B_already_connected (connectionTime status) (uptime status)) w1))
      else
        (let connectionLockKey = ''connecting_'' @ sanitizedNumber in
         if global_flags w connectionLockKey then
           release (Some connectionLockKey)
             (respond res B_connection_in_progress
                (inconnuLog (sanitizedNumber @ '' is already in connection process, skipping...'')
                   Info w))
         else
           (case connect_body env number sanitizedNumber res
                   (w\<lparr>global_flags := (global_flags w)(connectionLockKey := True)\<rparr>) of
              (None, w2) \<Rightarrow> release (Some connectionLockKey) w2
            | (Some msg, w2) \<Rightarrow>
                release (Some connectionLockKey)
                  (respond res (B_internal_error msg)
                     (inconnuLog (''InconnuboyPair error: '' @ msg) Error w2)))))"

text \<open>
  The callback of step 6, run when its timer fires: \<open>await delay(1500)\<close>, then the
  pairing-code request; its answer or its failure goes to the sink if the sink has
  not answered yet.
\<close>

definition pairing_callback :: "env \<Rightarrow> timer \<Rightarrow> world \<Rightarrow> world" where
  "pairing_callback env t w =
     (case t of PairingTimer due conn sanitizedNumber res \<Rightarrow>
        let w1 = delay 1500 w in
        case requestPairingCode env sanitizedNumber of
          Inr code \<Rightarrow> respond res (B_new_pairing code)
                        (inconnuLog (''Pairing Code: '' @ code) Success w1)
        | Inl msg \<Rightarrow> respond res (B_pairing_failed msg)
                       (inconnuLog (''Pairing Error: '' @ msg) Error w1))"

text \<open>The event loop runs the oldest pending timer, no earlier than its due time.\<close>

definition fire_timer :: "env \<Rightarrow> world \<Rightarrow> world" where
  "fire_timer env w =
     (case timers w of
        [] \<Rightarrow> w
      | PairingTimer due conn n res # ts \<Rightarrow>
          pairing_callback env (PairingTimer due conn n res)
            (w\<lparr>timers := ts, clock := max (clock w) due\<rparr>))"

section \<open>Reconnection policy: the listener of setupAutoRestart\<close>

datatype conn_state = Open | Close | Connecting

text \<open>
  A \<open>connection.update\<close> event: \<open>connection\<close>, and from \<open>lastDisconnect\<close> the
  optional \<open>error.output.statusCode\<close> and \<open>error.message\<close> (\<open>None\<close> for \<open>undefined\<close>).
\<close>

record update =
  connection :: "conn_state option"
  statusCode :: "int option"
  errorMessage :: "string option"

text \<open>\<^verbatim>\<open>errorMessage?.includes(sub)\<close>: \<open>undefined\<close>, hence falsy, without a message.\<close>

definition message_includes :: "string option \<Rightarrow> string \<Rightarrow> bool" where
  "message_includes m sub = (case m of None \<Rightarrow> False | Some t \<Rightarrow> str_includes t sub)"

definition maxRestartAttempts :: nat where
  "maxRestartAttempts = 3"

definition isManualUnlink :: "update \<Rightarrow> bool" where
  "isManualUnlink upd = (statusCode upd = Some 401 \<or> message_includes (errorMessage upd) ''401'')"

definition isNormalError :: "update \<Rightarrow> bool" where
  "isNormalError upd =
     (statusCode upd = Some 408 \<or> message_includes (errorMessage upd) ''QR refs attempts ended'')"

definition set_restartAttempts :: "nat \<Rightarrow> nat \<Rightarrow> world \<Rightarrow> world" where
  "set_restartAttempts s n w =
     (case sockets w s of None \<Rightarrow> w
      | Some sk \<Rightarrow> w\<lparr>sockets := (sockets w)(s \<mapsto> sk\<lparr>restartAttempts := n\<rparr>)\<rparr>)"

text \<open>The \<open>mockRes\<close> object literal: a new sink whose \<open>json\<close> does nothing.\<close>

definition new_mockRes :: "world \<Rightarrow> nat \<times> world" where
  "new_mockRes w =
     (next_sink w,
      w\<lparr>sinks := (sinks w)(next_sink w := fresh_res True), next_sink := Suc (next_sink w)\<rparr>)"

text \<open>
  The listener that \<open>setupAutoRestart(socket, number)\<close> registers on socket \<open>s\<close>, run on
  one \<open>connection.update\<close> event. \<open>number\<close> and \<open>restartAttempts\<close> are read from the
  closure of that socket. \<open>inconnuboyPair\<close> catches every exception of its body, so the
  \<open>catch\<close> around the reconnect is never entered. The listener is run to its end in
  one step: the ten seconds of \<open>delay\<close> pass on the clock, with no other event in
  between.
\<close>

definition autoRestart_listener :: "env \<Rightarrow> nat \<Rightarrow> update \<Rightarrow> world \<Rightarrow> world" where
  "autoRestart_listener env s upd w =
     (case sockets w s of
        None \<Rightarrow> w
      | Some sk \<Rightarrow>
        (let number = for_number sk;
             w0 = inconnuLog (''Connection update for '' @ number) Debug w
         in if connection upd = Some Close then
              (let w1 = inconnuLog (''Connection closed for '' @ number) Warning w0 in
               if isManualUnlink upd then
                 (let w2 = inconnuLog (''Manual unlink detected for '' @ number @ '', cleaning up...'')
                             Warning w1;
                      sanitizedNumber = sanitize number;
                      w3 = unregister sanitizedNumber w2;
                      w4 = deleteSessionFromMongoDB sanitizedNumber w3;
                      w5 = removeNumberFromMongoDB sanitizedNumber w4
                  in removeAllListeners s w5)
               else if isNormalError upd then
                 inconnuLog (''Normal connection closure for '' @ number @ '', no restart needed.'')
                   Info w1
               else if restartAttempts sk < maxRestartAttempts then
                 (let w2 = set_restartAttempts s (restartAttempts sk + 1) w1;
                      w3 = inconnuLog (''Unexpected connection lost for '' @ number
                                         @ '', attempting to reconnect in 10 seconds...'') Warning w2;
                      sanitizedNumber = sanitize number;
                      w4 = unregister sanitizedNumber w3;
                      w5 = removeAllListeners s w4;
                      w6 = delay 10000 w5
                  in case new_mockRes w6 of (mockRes, w7) \<Rightarrow>
                       inconnuLog (''Reconnection initiated for '' @ number) Success
                         (inconnuboyPair env number (Some mockRes) w7))
               else
                 inconnuLog (''Max restart attempts reached for '' @ number
                               @ ''. Manual intervention required.'') Error w1)
            else if connection upd = Some Open then
              set_restartAttempts s 0
                (inconnuLog (''Connection established for '' @ number) Success w0)
            else w0))"

text \<open>
  The second \<open>connection.update\<close> listener, registered by \<open>inconnuboyPair\<close> itself
  (step 8): on \<open>open\<close> it adds the number to the roster; on \<open>close\<close> it only logs a
  logged-out closure (\<open>DisconnectReason.loggedOut\<close> is 401). The welcome message it
  sends through the client is not part of the world.
\<close>

definition connection_listener :: "string \<Rightarrow> update \<Rightarrow> world \<Rightarrow> world" where
  "connection_listener sanitizedNumber upd w =
     (if connection upd = Some Open then
        inconnuLog (sanitizedNumber @ '' successfully connected!'') Success
          (addNumberToMongoDB sanitizedNumber
             (inconnuLog (''Connected: '' @ sanitizedNumber) Success w))
      else if connection upd = Some Close \<and> statusCode upd = Some 401 then
        inconnuLog ''Session closed: Logged Out.'' Error w
      else w)"

text \<open>
  The client emits \<open>connection.update\<close> on socket \<open>s\<close>: nothing runs when the listeners
  were removed; otherwise both listeners run, in the order of their registration.
\<close>

definition emit_connection_update :: "env \<Rightarrow> nat \<Rightarrow> update \<Rightarrow> world \<Rightarrow> world" where
  "emit_connection_update env s upd w =
     (case sockets w s of
        None \<Rightarrow> w
      | Some sk \<Rightarrow>
          if listening sk
          then connection_listener (sanitize (for_number sk)) upd (autoRestart_listener env s upd w)
          else w)"

text \<open>
  A closure of the tenant's current session: the event goes to the socket that the
  Registry holds for the number, if any.
\<close>

definition close_current :: "env \<Rightarrow> string \<Rightarrow> update \<Rightarrow> world \<Rightarrow> world" where
  "close_current env sanitizedNumber upd w =
     (case activeSockets w sanitizedNumber of
        None \<Rightarrow> w
      | Some s \<Rightarrow> emit_connection_update env s upd w)"

section \<open>The disconnect route\<close>

definition disconnect_try ::
  "env \<Rightarrow> nat \<Rightarrow> string \<Rightarrow> world \<Rightarrow> string option \<times> world" where
  "disconnect_try env socket sanitizedNumber w =
     (case throws env WsClose of
        Some e \<Rightarrow> (Some e, w)
      | None \<Rightarrow>
          (let w1 = ws_close socket w;
               w2 = removeAllListeners socket w1;
               w3 = unregister sanitizedNumber w2;
               w4 = removeNumberFromMongoDB sanitizedNumber w3;
               w5 = deleteSessionFromMongoDB sanitizedNumber w4
           in (None, inconnuLog (''Manually disconnected '' @ sanitizedNumber) Success w5)))"

text \<open>
  \<open>router.get('/disconnect')\<close>: \<open>number\<close> is \<open>req.query.number\<close> (\<open>None\<close> when the
  parameter is missing), \<open>res\<close> the response of the request.
\<close>

definition disconnect :: "env \<Rightarrow> string option \<Rightarrow> nat \<Rightarrow> world \<Rightarrow> world" where
  "disconnect env number res w =
     (case number of
        None \<Rightarrow> res_json res 400 B_number_required w
      | Some number \<Rightarrow>
          if number = [] then res_json res 400 B_number_required w
          else
            (let sanitizedNumber = sanitize number in
             case activeSockets w sanitizedNumber of
               None \<Rightarrow> res_json res 404 B_not_found w
             | Some socket \<Rightarrow>
                 (case disconnect_try env socket sanitizedNumber w of
                    (None, w1) \<Rightarrow> res_json res 200 B_disconnected w1
                  | (Some msg, w1) \<Rightarrow>
                      res_json res 500 B_disconnect_failed
                        (inconnuLog (''Error disconnecting '' @ sanitizedNumber @ '': '' @ msg)
                           Error w1))))"

section \<open>Event dispatch: the messages.upsert listener of inconnuboyPair\<close>

subsection \<open>JavaScript strings\<close>

text \<open>
  The texts that the listener trims, splits and converts to lower case are JavaScript
  strings: sequences of UTF-16 code units, here integers. \<open>js\<close> gives the code
  units of a literal of the source written in ASCII.
\<close>

type_synonym jsstring = "int list"

definition js :: "string \<Rightarrow> jsstring" where
  "js s = map of_char s"

text \<open>
  \<^verbatim>\<open>s.trim()\<close> removes white space and line terminators from both ends: TAB, LF, VT,
  FF, CR, SPACE, NO-BREAK SPACE, U+1680, U+2000 to U+200A, U+2028, U+2029, U+202F,
  U+205F, U+3000 and U+FEFF.
\<close>

definition isWhiteSpace :: "int \<Rightarrow> bool" where
  "isWhiteSpace u =
     (u \<in> set [0x09, 0x0A, 0x0B, 0x0C, 0x0D, 0x20, 0xA0, 0x1680, 0x2028, 0x2029, 0x202F,
               0x205F, 0x3000, 0xFEFF]
      \<or> (0x2000 \<le> u \<and> u \<le> 0x200A))"

definition trim :: "jsstring \<Rightarrow> jsstring" where
  "trim s = rev (dropWhile isWhiteSpace (rev (dropWhile isWhiteSpace s)))"

text \<open>\<^verbatim>\<open>s.split(c)[0]\<close> for a separator of one code unit, and \<^verbatim>\<open>s.endsWith(p)\<close>.\<close>

definition split_first :: "'a \<Rightarrow> 'a list \<Rightarrow> 'a list" where
  "split_first c s = takeWhile (\<lambda>x. x \<noteq> c) s"

definition endsWith :: "'a list \<Rightarrow> 'a list \<Rightarrow> bool" where
  "endsWith s p = startsWith (rev s) (rev p)"

subsection \<open>Configuration, commands and messages\<close>

text \<open>The fields of \<open>config.js\<close> that the listener reads.\<close>

record config =
  PREFIX :: jsstring
  WORK_TYPE :: jsstring
  OWNER_NUMBER :: jsstring

text \<open>The per-user flags; each is true when the stored value is the string \<open>'true'\<close>.\<close>

record userConfig =
  READ_MESSAGE :: bool
  AUTO_VIEW_STATUS :: bool
  AUTO_LIKE_STATUS :: bool
  AUTO_STATUS_REPLY :: bool
  AUTO_TYPING :: bool
  AUTO_RECORDING :: bool

text \<open>
  The calls of the listener into the store, the client and \<open>./lib/msg\<close> that can fail:
  loading the user configuration, the read receipt, the newsletter reaction, the three
  status actions, \<open>sms(conn, mek)\<close>, the two presence updates, the reply and the forward
  of the \<open>send\<close> command, the reaction of a command, and the three counters.
\<close>

datatype step =
    GetUserConfig | ReadReceipt | NewsletterReaction
  | ViewStatus | LikeStatus | ReplyStatus
  | Serialize | Composing | Recording
  | SendReply | ForwardQuoted
  | CountCommand | SendReaction | CountMessage | CountGroup

text \<open>
  What the listener takes from its surroundings. \<open>toLowerCase\<close> is
  \<open>String.prototype.toLowerCase\<close> of the JavaScript engine, the lower-case conversion of
  Unicode; nothing is assumed about it. \<open>fails s\<close> is the \<open>message\<close> of the exception
  when call \<open>s\<close> fails.
\<close>

record runtime =
  toLowerCase :: "jsstring \<Rightarrow> jsstring"
  fails :: "step \<Rightarrow> string option"

text \<open>
  What a call of a plugin's \<open>function\<close> does, as far as the listener can observe: it
  returns, it throws synchronously, or (an \<open>async\<close> function) it returns a promise that
  rejects.
\<close>

datatype outcome = Returns | Throws string | Rejects string

text \<open>
  The part of the context object the handlers are given that differs between the two
  call sites: \<open>command\<close> is the parsed command name on the command path and the
  descriptor itself (here its index in \<open>events.commands\<close>) on the event path.
\<close>

datatype ctx_command = Name jsstring | Descriptor nat

record ctx =
  ctx_body :: jsstring
  ctx_isCmd :: bool
  ctx_command :: ctx_command
  ctx_isOwner :: bool
  ctx_isGroup :: bool

text \<open>
  An entry of \<open>events.commands\<close> with its fields \<open>pattern\<close>, \<open>alias\<close>, \<open>on\<close>,
  \<open>react\<close> and \<open>function\<close>; absent fields are \<open>None\<close>.
\<close>

record command =
  cmd_pattern :: "jsstring option"
  cmd_alias :: "jsstring list option"
  cmd_on :: "jsstring option"
  cmd_react :: "jsstring option"
  cmd_function :: "ctx \<Rightarrow> outcome"

text \<open>
  \<open>getContentType(mek.message)\<close> with the text it selects, after the ephemeral
  envelope has been unwrapped.
\<close>

datatype content = Conversation jsstring | ExtendedText jsstring | OtherContent jsstring

text \<open>
  One message of the event. \<open>mek_type\<close> and \<open>mek_q\<close> are the properties
  \<open>mek.type\<close> and \<open>mek.q\<close> as they are once \<open>sms(conn, mek)\<close> has run
  (\<open>./lib/msg\<close> is not among the sources); \<open>quotedMessage\<close> tells whether
  \<open>extendedTextMessage.contextInfo.quotedMessage\<close> is present.
\<close>

record mek =
  has_message :: bool
  remoteJid :: jsstring
  fromMe :: bool
  participant :: "jsstring option"
  content :: content
  quotedMessage :: bool
  newsletterServerId :: bool
  mek_type :: "jsstring option"
  mek_q :: "jsstring option"

datatype via = ByCommand | ByEvent

text \<open>What the listener does, in order.\<close>

datatype action =
    ReadMessages
  | NewsletterReact
  | StatusView
  | StatusLike
  | StatusReply
  | Presence string
  | SendCommand
  | SendHint
  | IncrementStats string
  | Reaction jsstring
  | Invoke nat via
  | Logged level string
  | UnhandledRejection string

subsection \<open>Statements in sequence\<close>

text \<open>
  A stretch of the listener does some actions and then either goes on, executes
  \<open>return\<close>, or throws. \<open>andThen\<close> runs a second stretch only when the first goes
  on; \<open>awaited\<close> is an awaited call that does its actions or fails.
\<close>

datatype completion = Normal | Returned | Thrown string

type_synonym run = "action list \<times> completion"

definition nothing :: run where
  "nothing = ([], Normal)"

definition andThen :: "run \<Rightarrow> run \<Rightarrow> run" where
  "andThen r k = (case snd r of Normal \<Rightarrow> (fst r @ fst k, snd k) | _ \<Rightarrow> r)"

definition sequence :: "run list \<Rightarrow> run" where
  "sequence rs = foldr andThen rs nothing"

definition awaited :: "runtime \<Rightarrow> step \<Rightarrow> action list \<Rightarrow> run" where
  "awaited rt s acts = (case fails rt s of None \<Rightarrow> (acts, Normal) | Some e \<Rightarrow> ([], Thrown e))"

subsection \<open>The listener\<close>

definition message_body :: "mek \<Rightarrow> jsstring" where
  "message_body m =
     (case content m of Conversation t \<Rightarrow> t | ExtendedText t \<Rightarrow> t | OtherContent k \<Rightarrow> [])"

text \<open>
  \<^verbatim>\<open>isCmd ? body.slice(config.PREFIX.length).trim().split(" ")[0].toLowerCase() : false\<close>,
  for a body that starts with the prefix.
\<close>

definition cmdName :: "runtime \<Rightarrow> config \<Rightarrow> jsstring \<Rightarrow> jsstring" where
  "cmdName rt cfg body =
     toLowerCase rt (split_first 0x20 (trim (drop (length (PREFIX cfg)) body)))"

text \<open>\<^verbatim>\<open>a || b\<close> on strings: the empty string is falsy.\<close>

definition sender_of :: "jsstring \<Rightarrow> mek \<Rightarrow> jsstring" where
  "sender_of user_id m =
     (if fromMe m then split_first (of_char CHR '':'') user_id @ js ''@s.whatsapp.net''
      else (case participant m of
              None \<Rightarrow> remoteJid m
            | Some p \<Rightarrow> if p = [] then remoteJid m else p))"

definition isOwner_of :: "config \<Rightarrow> jsstring \<Rightarrow> mek \<Rightarrow> bool" where
  "isOwner_of cfg user_id m =
     (let senderNumber = split_first (of_char CHR ''@'') (sender_of user_id m);
          botNumber = split_first (of_char CHR '':'') user_id;
          isMe = str_includes botNumber senderNumber
      in str_includes (OWNER_NUMBER cfg) senderNumber \<or> isMe)"

text \<open>\<^verbatim>\<open>commands.find(p)\<close>, with the index of the entry found.\<close>

fun find_from :: "nat \<Rightarrow> (command \<Rightarrow> bool) \<Rightarrow> command list \<Rightarrow> (nat \<times> command) option" where
  "find_from i p [] = None"
| "find_from i p (c # cs) = (if p c then Some (i, c) else find_from (Suc i) p cs)"

text \<open>The two tests of the lookup: \<^verbatim>\<open>cmd.pattern === name\<close> and
  \<^verbatim>\<open>cmd.alias && cmd.alias.includes(name)\<close>.\<close>

definition has_pattern :: "jsstring \<Rightarrow> command \<Rightarrow> bool" where
  "has_pattern name cmd = (cmd_pattern cmd = Some name)"

definition has_alias :: "jsstring \<Rightarrow> command \<Rightarrow> bool" where
  "has_alias name cmd = (case cmd_alias cmd of None \<Rightarrow> False | Some al \<Rightarrow> name \<in> set al)"

text \<open>
  \<^verbatim>\<open>commands.find(cmd => cmd.pattern === cmdName) ||\<close>
  \<^verbatim>\<open>commands.find(cmd => cmd.alias && cmd.alias.includes(cmdName))\<close>
\<close>

definition find_command :: "command list \<Rightarrow> jsstring \<Rightarrow> (nat \<times> command) option" where
  "find_command commands name =
     (case find_from 0 (has_pattern name) commands of
        Some r \<Rightarrow> Some r
      | None \<Rightarrow> find_from 0 (has_alias name) commands)"

text \<open>
  \<^verbatim>\<open>if (cmd.react) conn.sendMessage(from, { react: ... })\<close>: sent without \<open>await\<close>, so
  its failure is a rejection that nobody handles.
\<close>

definition reaction :: "runtime \<Rightarrow> command \<Rightarrow> action list" where
  "reaction rt cmd =
     (case cmd_react cmd of
        None \<Rightarrow> []
      | Some e \<Rightarrow>
          if e = [] then []
          else (case fails rt SendReaction of
                  None \<Rightarrow> [Reaction e]
                | Some x \<Rightarrow> [UnhandledRejection x]))"

text \<open>
  The command path (\<open>if (isCmd) { ... }\<close>). The counter is awaited; the \<open>return\<close> of the
  private-mode test ends the listener. A synchronous throw of the handler is caught
  and logged; a rejected promise is not awaited by anyone.
\<close>

definition command_path ::
  "runtime \<Rightarrow> config \<Rightarrow> command list \<Rightarrow> jsstring \<Rightarrow> bool \<Rightarrow> bool \<Rightarrow> run" where
  "command_path rt cfg commands body isOwner isGroup =
     (if startsWith body (PREFIX cfg) then
        andThen (awaited rt CountCommand [IncrementStats ''commandsUsed''])
          (let name = cmdName rt cfg body in
           case find_command commands name of
             None \<Rightarrow> nothing
           | Some (i, cmd) \<Rightarrow>
               if WORK_TYPE cfg = js ''private'' \<and> \<not> isOwner then ([], Returned)
               else
                 (reaction rt cmd
                  @ [Invoke i ByCommand]
                  @ (case cmd_function cmd
                            \<lparr>ctx_body = body, ctx_isCmd = True, ctx_command = Name name,
                             ctx_isOwner = isOwner, ctx_isGroup = isGroup\<rparr> of
                       Returns \<Rightarrow> []
                     | Throws e \<Rightarrow> [Logged Error (''PLUGIN ERROR: '' @ e)]
                     | Rejects e \<Rightarrow> [UnhandledRejection e]),
                  Normal))
      else nothing)"

text \<open>The trigger test of the event path, in the order of the \<open>if\<close>/\<open>else if\<close> chain.\<close>

definition triggered :: "jsstring \<Rightarrow> mek \<Rightarrow> command \<Rightarrow> bool" where
  "triggered body m c =
     (if body \<noteq> [] \<and> cmd_on c = Some (js ''body'') then True
      else if (case mek_q m of None \<Rightarrow> False | Some q \<Rightarrow> q \<noteq> []) \<and> cmd_on c = Some (js ''text'')
        then True
      else if (cmd_on c = Some (js ''image'') \<or> cmd_on c = Some (js ''photo''))
              \<and> mek_type m = Some (js ''imageMessage'')
        then True
      else if cmd_on c = Some (js ''sticker'') \<and> mek_type m = Some (js ''stickerMessage'')
        then True
      else False)"

text \<open>
  \<^verbatim>\<open>events.commands.map(async (command) => { ... })\<close>: every entry is visited; a handler
  that throws or rejects makes the promise of its own \<open>async\<close> callback reject, which
  nothing awaits or catches.
\<close>

fun event_path ::
  "jsstring \<Rightarrow> mek \<Rightarrow> bool \<Rightarrow> bool \<Rightarrow> bool \<Rightarrow> nat \<Rightarrow> command list \<Rightarrow> action list" where
  "event_path body m isCmd isOwner isGroup i [] = []"
| "event_path body m isCmd isOwner isGroup i (c # cs) =
     (if triggered body m c
      then Invoke i ByEvent
           # (case cmd_function c
                     \<lparr>ctx_body = body, ctx_isCmd = isCmd, ctx_command = Descriptor i,
                      ctx_isOwner = isOwner, ctx_isGroup = isGroup\<rparr> of
                Returns \<Rightarrow> []
              | Throws e \<Rightarrow> [UnhandledRejection e]
              | Rejects e \<Rightarrow> [UnhandledRejection e])
      else [])
     @ event_path body m isCmd isOwner isGroup (Suc i) cs"

text \<open>
  The automatic behaviours around the two paths: read receipt and newsletter reaction
  (whose failure is swallowed by its own \<open>try\<close>), the handling of a status update, which
  ends with \<open>return\<close>, the presence updates, and the built-in \<open>send\<close> command (the
  failure of its forward is caught and logged).
\<close>

definition auto_read :: "runtime \<Rightarrow> userConfig \<Rightarrow> mek \<Rightarrow> run" where
  "auto_read rt ucfg m =
     andThen (if READ_MESSAGE ucfg then awaited rt ReadReceipt [ReadMessages] else nothing)
       (if remoteJid m = js ''120363421104812135@newsletter'' \<and> newsletterServerId m
           \<and> fails rt NewsletterReaction = None
        then ([NewsletterReact], Normal) else nothing)"

definition status_handling :: "runtime \<Rightarrow> userConfig \<Rightarrow> run" where
  "status_handling rt ucfg =
     sequence
       [if AUTO_VIEW_STATUS ucfg then awaited rt ViewStatus [StatusView] else nothing,
        if AUTO_LIKE_STATUS ucfg then awaited rt LikeStatus [StatusLike] else nothing,
        if AUTO_STATUS_REPLY ucfg then awaited rt ReplyStatus [StatusReply] else nothing,
        ([], Returned)]"

definition auto_presence :: "runtime \<Rightarrow> userConfig \<Rightarrow> run" where
  "auto_presence rt ucfg =
     andThen (if AUTO_TYPING ucfg then awaited rt Composing [Presence ''composing''] else nothing)
       (if AUTO_RECORDING ucfg then awaited rt Recording [Presence ''recording''] else nothing)"

definition send_command :: "runtime \<Rightarrow> jsstring \<Rightarrow> mek \<Rightarrow> run" where
  "send_command rt body m =
     (if trim (toLowerCase rt body) \<in> set [js ''send'', js ''sendme'', js ''sand'']
      then (if \<not> quotedMessage m then awaited rt SendReply [SendHint]
            else (case fails rt ForwardQuoted of
                    None \<Rightarrow> ([SendCommand], Normal)
                  | Some e \<Rightarrow> ([Logged Error (''Send command error: '' @ e)], Normal)))
      else nothing)"

text \<open>
  The body of the \<open>try\<close> block for the message \<open>mek = msg.messages[0]\<close>, on the session
  whose client reports the user id \<open>user_id\<close> (the session is open, so \<open>conn.user\<close> is
  set). The fetch of the group metadata has a \<open>try\<close> of its own that swallows its failure;
  it decides no step of the listener and has no step here.
\<close>

definition handle_first ::
  "runtime \<Rightarrow> config \<Rightarrow> userConfig \<Rightarrow> command list \<Rightarrow> jsstring \<Rightarrow> mek \<Rightarrow> run" where
  "handle_first rt cfg ucfg commands user_id m =
     (if \<not> has_message m then ([], Returned)
      else
        (let body = message_body m;
             isCmd = startsWith body (PREFIX cfg);
             isGroup = endsWith (remoteJid m) (js ''@g.us'');
             isOwner = isOwner_of cfg user_id m
         in sequence
              [awaited rt GetUserConfig [],
               auto_read rt ucfg m,
               if remoteJid m = js ''status@broadcast'' then status_handling rt ucfg else nothing,
               awaited rt Serialize [],
               auto_presence rt ucfg,
               send_command rt body m,
               command_path rt cfg commands body isOwner isGroup,
               awaited rt CountMessage [IncrementStats ''messagesReceived''],
               if isGroup then awaited rt CountGroup [IncrementStats ''groupsInteracted'']
               else nothing,
               (event_path body m isCmd isOwner isGroup 0 commands, Normal)]))"

text \<open>
  The listener on one \<open>messages.upsert\<close> event with the batch \<open>messages\<close>: only the
  first message is looked at. An exception that leaves the \<open>try\<close> block is logged by
  the \<open>catch\<close>, and with it the rest of the block is abandoned; reading \<open>mek.message\<close> of
  an empty batch is such an exception.
\<close>

definition messages_upsert ::
  "runtime \<Rightarrow> config \<Rightarrow> userConfig \<Rightarrow> command list \<Rightarrow> jsstring \<Rightarrow> mek list \<Rightarrow> action list" where
  "messages_upsert rt cfg ucfg commands user_id messages =
     (case messages of
        [] \<Rightarrow> [Logged Error (''Message handler error: ''
                   @ ''Cannot read properties of undefined (reading '' @ [CHR 0x27]
                   @ ''message'' @ [CHR 0x27] @ '')'')]
      | mek # rest \<Rightarrow>
          (case handle_first rt cfg ucfg commands user_id mek of
             (acts, Thrown e) \<Rightarrow> acts @ [Logged Error (''Message handler error: '' @ e)]
           | (acts, c) \<Rightarrow> acts))"






subsection \<open>Worlds for the examples\<close>

definition world0 :: world where
  "world0 = \<lparr>activeSockets = Map.empty, socketCreationTime = Map.empty,
             global_flags = (\<lambda>k. False), sockets = Map.empty, next_socket = 0,
             sinks = (\<lambda>i. fresh_res False), next_sink = 1,
             mongo_sessions = Map.empty, mongo_numbers = {}, sessionDirs = Map.empty,
             timers = [], clock = 1000000, logs = []\<rparr>"

definition env0 :: env where
  "env0 = \<lparr>throws = (\<lambda>c. None), requestPairingCode = (\<lambda>n. Inr ''ABCD1234'')\<rparr>"

definition world_connecting :: world where
  "world_connecting = world0\<lparr>global_flags := (\<lambda>k. k = ''connecting_123'')\<rparr>"

definition world_stored :: world where
  "world_stored = world0\<lparr>mongo_sessions := [''123'' \<mapsto> ''blob''], mongo_numbers := {''123''}\<rparr>"

definition connection_lost :: update where
  "connection_lost =
     \<lparr>connection = Some Close, statusCode = Some 428, errorMessage = Some ''Connection Closed''\<rparr>"

text \<open>
  A time-out of the connection attempt, as the client reports it: status code 408, and
  in the message the address that did not answer.
\<close>

definition timed_out :: update where
  "timed_out =
     \<lparr>connection = Some Close, statusCode = Some 408,
      errorMessage =
        Some ''WebSocket Error (connect ETIMEDOUT 2a03:2880:f401:c8:face:b00c:0:167:443)''\<rparr>"

definition unauthorized :: update where
  "unauthorized =
     \<lparr>connection = Some Close, statusCode = Some 401, errorMessage = Some ''Connection Failure''\<rparr>"

definition pairing_expired :: update where
  "pairing_expired =
     \<lparr>connection = Some Close, statusCode = Some 408,
      errorMessage = Some ''QR refs attempts ended''\<rparr>"

text \<open>Tenant 123 with a stored blob and a live session, socket 0.\<close>

definition world_registered :: world where
  "world_registered =
     world_stored\<lparr>activeSockets := [''123'' \<mapsto> 0], socketCreationTime := [''123'' \<mapsto> 999000],
       sockets := [0 \<mapsto> \<lparr>for_number = ''123'', usePairingCode = False, creds = Some ''blob'',
                          restartAttempts = 0, listening = True, ws_closed = False\<rparr>],
       next_socket := 1, sessionDirs := [''123'' \<mapsto> Some ''blob'']\<rparr>"

text \<open>
  The tenant's session is the socket \<open>s\<close>, the newest one, with its listeners attached
  and its restart counter at 0, and no connect is in progress.
\<close>

definition session_ready :: "string \<Rightarrow> nat \<Rightarrow> world \<Rightarrow> bool" where
  "session_ready n s w =
     (activeSockets w n = Some s \<and> next_socket w = Suc s
      \<and> \<not> global_flags w (''connecting_'' @ n)
      \<and> (case sockets w s of
            None \<Rightarrow> False
          | Some sk \<Rightarrow> listening sk \<and> sanitize (for_number sk) = n \<and> restartAttempts sk = 0))"

text \<open>The world after \<open>k\<close> consecutive unexpected closures of the session of 123.\<close>

definition closures :: "nat \<Rightarrow> world" where
  "closures k = ((close_current env0 ''123'' connection_lost) ^^ k) world_registered"

text \<open>
  On a text of ASCII code units \<open>toLowerCase\<close> is \<open>lower_ascii\<close>; the examples use such
  texts only. In \<open>rt0\<close> no call fails.
\<close>

definition lower_ascii :: "jsstring \<Rightarrow> jsstring" where
  "lower_ascii s = map (\<lambda>u. if 0x41 \<le> u \<and> u \<le> 0x5A then u + 0x20 else u) s"

definition rt0 :: runtime where
  "rt0 = \<lparr>toLowerCase = lower_ascii, fails = (\<lambda>s. None)\<rparr>"


definition cfg0 :: config where
  "cfg0 = \<lparr>PREFIX = js ''.'', WORK_TYPE = js ''public'', OWNER_NUMBER = js ''2547999635583''\<rparr>"

definition ucfg0 :: userConfig where
  "ucfg0 = \<lparr>READ_MESSAGE = False, AUTO_VIEW_STATUS = False, AUTO_LIKE_STATUS = False,
            AUTO_STATUS_REPLY = False, AUTO_TYPING = False, AUTO_RECORDING = False\<rparr>"



definition echo :: command where
  "echo = \<lparr>cmd_pattern = None, cmd_alias = None, cmd_on = Some (js ''body''),
           cmd_react = None, cmd_function = (\<lambda>c. Throws ''bang'')\<rparr>"


definition boom :: command where
  "boom = \<lparr>cmd_pattern = Some (js ''boom''), cmd_alias = None, cmd_on = None,
           cmd_react = None, cmd_function = (\<lambda>c. Throws ''boom'')\<rparr>"


definition logger :: command where
  "logger = \<lparr>cmd_pattern = Some (js ''log''), cmd_alias = None, cmd_on = Some (js ''body''),
             cmd_react = None, cmd_function = (\<lambda>c. Returns)\<rparr>"

definition bot_id :: jsstring where
  "bot_id = js ''999:1@s.whatsapp.net''"

definition text_message :: "string \<Rightarrow> mek" where
  "text_message t =
     \<lparr>has_message = True, remoteJid = js ''111@s.whatsapp.net'', fromMe = False,
      participant = None, content = Conversation (js t), quotedMessage = False,
      newsletterServerId = False, mek_type = None, mek_q = None\<rparr>"


section \<open>Status queries\<close>

lemma sanitize_idem: "sanitize (sanitize number) = sanitize number"
  by (simp add: sanitize_def)

text \<open>
  C10. A number whose sanitized digit form has no entry in the Registry (neither in
  \<open>activeSockets\<close> nor in \<open>socketCreationTime\<close>) gets exactly
  \<open>{isConnected: false, connectionTime: null, uptime: 0}\<close>: the query is total and
  reports a null connection time and zero uptime.
\<close>

theorem getConnectionStatus_unknown:
  assumes "activeSockets w (sanitize number) = None"
    and "socketCreationTime w (sanitize number) = None"
  shows "getConnectionStatus w number =
           \<lparr>isConnected = False, connectionTime = None, uptime = 0\<rparr>"
  using assms by (simp add: getConnectionStatus_def)


text \<open>The witness of C10: nobody is registered in \<open>world0\<close>.\<close>

theorem getConnectionStatus_unknown_witness:
  "activeSockets world0 (sanitize ''+1 (555) 010'') = None
   \<and> socketCreationTime world0 (sanitize ''+1 (555) 010'') = None
   \<and> getConnectionStatus world0 ''+1 (555) 010''
       = \<lparr>isConnected = False, connectionTime = None, uptime = 0\<rparr>"
proof -
  have h1: "activeSockets world0 (sanitize ''+1 (555) 010'') = None"
    by (simp add: world0_def)
  have h2: "socketCreationTime world0 (sanitize ''+1 (555) 010'') = None"
    by (simp add: world0_def)
  have c: "getConnectionStatus world0 ''+1 (555) 010''
             = \<lparr>isConnected = False, connectionTime = None, uptime = 0\<rparr>"
    by (rule getConnectionStatus_unknown [OF h1 h2])
  show ?thesis by (intro conjI h1 h2 c)
qed

section \<open>The connect operation\<close>

lemmas connect_defs =
  inconnuboyPair_def connect_body_def restore_or_clean_def getSessionFromMongoDB_def
  useMultiFileAuthState_def makeWASocket_def register_def setupAutoRestart_def
  setTimeout_def release_def respond_def inconnuLog_def
  isNumberAlreadyConnected_def sanitize_idem

text \<open>
  The world after a connect that takes the lock and meets no exception, for a tenant
  without and with a stored credential blob. Only the log is left implicit.
\<close>

lemma connect_new:
  assumes "mongo_sessions w (sanitize number) = None"
    and "activeSockets w (sanitize number) = None"
    and "\<not> global_flags w (''connecting_'' @ sanitize number)"
    and "throws env LocalCache = None" and "throws env AuthState = None"
    and "throws env MakeSocket = None"
  shows "inconnuboyPair env number res w =
           w\<lparr>activeSockets := (activeSockets w)(sanitize number \<mapsto> next_socket w),
             socketCreationTime := (socketCreationTime w)(sanitize number \<mapsto> clock w),
             global_flags := (global_flags w)(''connecting_'' @ sanitize number := False),
             sockets := (sockets w)(next_socket w \<mapsto>
                \<lparr>for_number = number, usePairingCode = True, creds = None,
                 restartAttempts = 0, listening = True, ws_closed = False\<rparr>),
             next_socket := Suc (next_socket w),
             sessionDirs := (sessionDirs w)(sanitize number \<mapsto> None),
             timers := timers w
                @ [PairingTimer (clock w + 3000) (next_socket w) (sanitize number) res],
             logs := logs (inconnuboyPair env number res w)\<rparr>"
  using assms by (simp add: connect_defs Let_def split: option.splits)

lemma connect_restore:
  assumes "mongo_sessions w (sanitize number) = Some blob"
    and "activeSockets w (sanitize number) = None"
    and "\<not> global_flags w (''connecting_'' @ sanitize number)"
    and "throws env LocalCache = None" and "throws env AuthState = None"
    and "throws env MakeSocket = None"
  shows "inconnuboyPair env number res w =
           w\<lparr>activeSockets := (activeSockets w)(sanitize number \<mapsto> next_socket w),
             socketCreationTime := (socketCreationTime w)(sanitize number \<mapsto> clock w),
             global_flags := (global_flags w)(''connecting_'' @ sanitize number := False),
             sockets := (sockets w)(next_socket w \<mapsto>
                \<lparr>for_number = number, usePairingCode = False, creds = Some blob,
                 restartAttempts = 0, listening = True, ws_closed = False\<rparr>),
             next_socket := Suc (next_socket w),
             sessionDirs := (sessionDirs w)(sanitize number \<mapsto> Some blob),
             sinks := deliver res B_reconnecting (sinks w),
             logs := logs (inconnuboyPair env number res w)\<rparr>"
  using assms by (simp add: connect_defs Let_def)

subsection \<open>The connection lock\<close>

text \<open>
  Two of the exit paths treat the lock as the spec asks. The already-connected return
  leaves every flag as it was, and an invocation that took the lock leaves it released,
  whether its body ran to the end or threw.
\<close>

lemma already_connected_keeps_flags:
  assumes "activeSockets w (sanitize number) \<noteq> None"
  shows "global_flags (inconnuboyPair env number res w) = global_flags w"
  using assms by (simp add: connect_defs Let_def)

lemma connect_body_flags:
  "global_flags (snd (connect_body env number n res w)) = global_flags w"
  by (simp add: connect_defs Let_def split: option.splits)

lemma acquired_lock_is_released:
  assumes "activeSockets w (sanitize number) = None"
    and "\<not> global_flags w (''connecting_'' @ sanitize number)"
  shows "\<not> global_flags (inconnuboyPair env number res w) (''connecting_'' @ sanitize number)"
proof -
  obtain e w2 where b: "connect_body env number (sanitize number) res
        (w\<lparr>global_flags := (global_flags w)(''connecting_'' @ sanitize number := True)\<rparr>) = (e, w2)"
    by (cases "connect_body env number (sanitize number) res
        (w\<lparr>global_flags := (global_flags w)(''connecting_'' @ sanitize number := True)\<rparr>)")
  show ?thesis
    using assms b
    by (cases e)
       (simp_all add: inconnuboyPair_def isNumberAlreadyConnected_def sanitize_idem Let_def
          release_def respond_def inconnuLog_def)
qed

text \<open>
  The third does not. On the connection-in-progress return the key has already been
  assigned, so the \<open>finally\<close> block sets to false a flag that another invocation set.
\<close>

lemma contention_clears_flag:
  assumes "activeSockets w (sanitize number) = None"
    and "global_flags w (''connecting_'' @ sanitize number)"
  shows "global_flags (inconnuboyPair env number res w)
           = (global_flags w)(''connecting_'' @ sanitize number := False)"
  using assms
  by (simp add: inconnuboyPair_def isNumberAlreadyConnected_def sanitize_idem Let_def
        release_def respond_def inconnuLog_def)

text \<open>
  C1. The lock is to be released once per acquisition, and an invocation that did not
  take it is to leave the lock of a concurrent invocation alone. In
  \<open>world_connecting\<close> a first \<open>connect\<close> for 123 holds the lock and is waiting for the
  store. A second \<open>connect\<close> for 123 answers \<open>connection_in_progress\<close> and, on its way
  out, releases the lock that the first one holds.
\<close>

theorem contention_return_clears_lock:
  "global_flags world_connecting ''connecting_123''
   \<and> activeSockets world_connecting ''123'' = None
   \<and> sent (sinks (inconnuboyPair env0 ''123'' (Some 0) world_connecting) 0)
       = [(200, B_connection_in_progress)]
   \<and> \<not> global_flags (inconnuboyPair env0 ''123'' (Some 0) world_connecting) ''connecting_123''"
  by code_simp

subsection \<open>New pairing and restore\<close>

lemma open_keeps_registry:
  assumes "connection upd = Some Open"
  shows "activeSockets (emit_connection_update env s upd w) = activeSockets w"
    and "socketCreationTime (emit_connection_update env s upd w) = socketCreationTime w"
  using assms
  by (simp_all add: emit_connection_update_def autoRestart_listener_def connection_listener_def
        set_restartAttempts_def addNumberToMongoDB_def inconnuLog_def Let_def
        split: option.splits)

text \<open>
  C2, as the claim states it, fails: the session is in the Registry as soon as
  \<open>connect\<close> returns, before any \<open>open\<close> event, and the sink has received nothing yet.
\<close>

theorem connect_registers_before_open:
  "mongo_sessions world0 ''123'' = None
   \<and> activeSockets (inconnuboyPair env0 ''123'' (Some 0) world0) ''123'' = Some 0
   \<and> sent (sinks (inconnuboyPair env0 ''123'' (Some 0) world0) 0) = []"
  by code_simp

text \<open>
  C2, amended. For a tenant with no stored credential blob that is neither registered
  nor being connected, and when the client can be instantiated, \<open>connect\<close> registers
  the new session at once (\<open>activeSockets\<close> and \<open>socketCreationTime\<close>), in pairing-code
  mode, releases the lock, delivers nothing to the sink yet and schedules one
  pairing-code callback 3000 ms ahead. When that callback is the next timer to run, it
  waits 1500 ms more and delivers to the sink, if the sink is present and has not
  answered, the pairing code, or the failure of the request. An \<open>open\<close> event on the
  new session does not change the Registry.
\<close>

theorem connect_new_pairing:
  fixes res :: "nat option"
  assumes "mongo_sessions w (sanitize number) = None"
    and "activeSockets w (sanitize number) = None"
    and "\<not> global_flags w (''connecting_'' @ sanitize number)"
    and "throws env LocalCache = None" and "throws env AuthState = None"
    and "throws env MakeSocket = None"
    and "timers w = []"
  defines "w' \<equiv> inconnuboyPair env number res w"
  shows "activeSockets w' (sanitize number) = Some (next_socket w)
       \<and> socketCreationTime w' (sanitize number) = Some (clock w)
       \<and> map_option usePairingCode (sockets w' (next_socket w)) = Some True
       \<and> \<not> global_flags w' (''connecting_'' @ sanitize number)
       \<and> sinks w' = sinks w
       \<and> timers w' = [PairingTimer (clock w + 3000) (next_socket w) (sanitize number) res]
       \<and> clock (fire_timer env w') = clock w + 4500
       \<and> sinks (fire_timer env w')
           = deliver res (case requestPairingCode env (sanitize number) of
                            Inr code \<Rightarrow> B_new_pairing code
                          | Inl msg \<Rightarrow> B_pairing_failed msg) (sinks w)
       \<and> activeSockets
            (emit_connection_update env (next_socket w)
               \<lparr>connection = Some Open, statusCode = None, errorMessage = None\<rparr> w')
           = activeSockets w'"
proof -
  have eq: "w' = w\<lparr>activeSockets := (activeSockets w)(sanitize number \<mapsto> next_socket w),
             socketCreationTime := (socketCreationTime w)(sanitize number \<mapsto> clock w),
             global_flags := (global_flags w)(''connecting_'' @ sanitize number := False),
             sockets := (sockets w)(next_socket w \<mapsto>
                \<lparr>for_number = number, usePairingCode = True, creds = None,
                 restartAttempts = 0, listening = True, ws_closed = False\<rparr>),
             next_socket := Suc (next_socket w),
             sessionDirs := (sessionDirs w)(sanitize number \<mapsto> None),
             timers := timers w
                @ [PairingTimer (clock w + 3000) (next_socket w) (sanitize number) res],
             logs := logs w'\<rparr>"
    unfolding w'_def using assms(1-6) by (rule connect_new)
  have reg: "activeSockets w' (sanitize number) = Some (next_socket w)"
    "socketCreationTime w' (sanitize number) = Some (clock w)"
    "map_option usePairingCode (sockets w' (next_socket w)) = Some True"
    "\<not> global_flags w' (''connecting_'' @ sanitize number)"
    "sinks w' = sinks w"
    by (subst eq, simp)+
  have tm: "timers w' = [PairingTimer (clock w + 3000) (next_socket w) (sanitize number) res]"
    by (subst eq) (simp add: assms(7))
  have ck: "clock w' = clock w"
    by (subst eq) simp
  have fire: "clock (fire_timer env w') = clock w + 4500"
    "sinks (fire_timer env w')
       = deliver res (case requestPairingCode env (sanitize number) of
                        Inr code \<Rightarrow> B_new_pairing code
                      | Inl msg \<Rightarrow> B_pairing_failed msg) (sinks w)"
    by (simp_all add: fire_timer_def tm ck reg(5) pairing_callback_def delay_def respond_def
          inconnuLog_def Let_def split: sum.splits)
  have op: "activeSockets
            (emit_connection_update env (next_socket w)
               \<lparr>connection = Some Open, statusCode = None, errorMessage = None\<rparr> w')
           = activeSockets w'"
    by (rule open_keeps_registry) simp
  show ?thesis
    by (intro conjI reg tm fire op)
qed

text \<open>The witness of C2: the first connect of 123, and its pairing-code callback.\<close>

theorem connect_new_pairing_witness:
  "mongo_sessions world0 (sanitize ''123'') = None
   \<and> activeSockets world0 (sanitize ''123'') = None
   \<and> \<not> global_flags world0 (''connecting_'' @ sanitize ''123'')
   \<and> throws env0 LocalCache = None \<and> throws env0 AuthState = None
   \<and> throws env0 MakeSocket = None \<and> timers world0 = []
   \<and> activeSockets (inconnuboyPair env0 ''123'' (Some 0) world0) ''123'' = Some 0
   \<and> sent (sinks (fire_timer env0 (inconnuboyPair env0 ''123'' (Some 0) world0)) 0)
       = [(200, B_new_pairing ''ABCD1234'')]"
proof -
  have h: "mongo_sessions world0 (sanitize ''123'') = None"
    "activeSockets world0 (sanitize ''123'') = None"
    "\<not> global_flags world0 (''connecting_'' @ sanitize ''123'')"
    "throws env0 LocalCache = None" "throws env0 AuthState = None"
    "throws env0 MakeSocket = None" "timers world0 = []"
    by (simp_all add: world0_def env0_def)
  have s: "sanitize ''123'' = ''123''"
    by (simp add: sanitize_def isDigit_def)
  note t = connect_new_pairing [where res = "Some 0", OF h]
  have a: "activeSockets (inconnuboyPair env0 ''123'' (Some 0) world0) ''123'' = Some 0"
    using t by (simp add: s world0_def)
  have b: "sent (sinks (fire_timer env0 (inconnuboyPair env0 ''123'' (Some 0) world0)) 0)
             = [(200, B_new_pairing ''ABCD1234'')]"
    using t by (simp add: s world0_def env0_def deliver_def json_def fresh_res_def)
  show ?thesis
    by (intro conjI h a b)
qed

text \<open>
  C6, as the claim states it, fails: for a tenant whose blob is in the store and whose
  session is already registered, \<open>connect\<close> answers \<open>already_connected\<close>, not
  \<open>reconnecting\<close>, and instantiates no client.
\<close>

theorem connect_of_registered_tenant:
  "mongo_sessions world_registered ''123'' = Some ''blob''
   \<and> sent (sinks (inconnuboyPair env0 ''123'' (Some 0) world_registered) 0)
       = [(200, B_already_connected (Some 999000) 1)]
   \<and> sockets (inconnuboyPair env0 ''123'' (Some 0) world_registered) 1 = None"
  by code_simp

text \<open>
  C6, amended. For a tenant that is not registered and not being connected (the lock is
  free), and when the client can be instantiated: with a blob in the store, the blob
  is written to the local cache, the client is created in resume mode on the restored
  credentials (\<open>usePairingCode\<close> false) and registered, no pairing-code timer is set,
  and \<open>reconnecting\<close> is delivered to the sink before \<open>connect\<close> returns (\<open>deliver\<close>: if
  there is a sink and it has not answered); without a blob, the local cache is left
  as a directory without credentials and the client is created in pairing-code mode.
\<close>

theorem connect_restores_or_pairs:
  fixes res :: "nat option"
  assumes "activeSockets w (sanitize number) = None"
    and "\<not> global_flags w (''connecting_'' @ sanitize number)"
    and "throws env LocalCache = None" and "throws env AuthState = None"
    and "throws env MakeSocket = None"
  defines "w' \<equiv> inconnuboyPair env number res w"
  shows "case mongo_sessions w (sanitize number) of
           Some blob \<Rightarrow>
             sessionDirs w' (sanitize number) = Some (Some blob)
           \<and> sockets w' (next_socket w)
               = Some \<lparr>for_number = number, usePairingCode = False, creds = Some blob,
                       restartAttempts = 0, listening = True, ws_closed = False\<rparr>
           \<and> activeSockets w' (sanitize number) = Some (next_socket w)
           \<and> timers w' = timers w
           \<and> sinks w' = deliver res B_reconnecting (sinks w)
         | None \<Rightarrow>
             sessionDirs w' (sanitize number) = Some None
           \<and> sockets w' (next_socket w)
               = Some \<lparr>for_number = number, usePairingCode = True, creds = None,
                       restartAttempts = 0, listening = True, ws_closed = False\<rparr>
           \<and> activeSockets w' (sanitize number) = Some (next_socket w)"
proof (cases "mongo_sessions w (sanitize number)")
  case None
  have "sessionDirs w' (sanitize number) = Some None
      \<and> sockets w' (next_socket w)
          = Some \<lparr>for_number = number, usePairingCode = True, creds = None,
                  restartAttempts = 0, listening = True, ws_closed = False\<rparr>
      \<and> activeSockets w' (sanitize number) = Some (next_socket w)"
    unfolding w'_def by (subst connect_new [OF None assms(1-5)], simp)+
  with None show ?thesis by simp
next
  case (Some blob)
  have "sessionDirs w' (sanitize number) = Some (Some blob)
      \<and> sockets w' (next_socket w)
          = Some \<lparr>for_number = number, usePairingCode = False, creds = Some blob,
                  restartAttempts = 0, listening = True, ws_closed = False\<rparr>
      \<and> activeSockets w' (sanitize number) = Some (next_socket w)
      \<and> timers w' = timers w
      \<and> sinks w' = deliver res B_reconnecting (sinks w)"
    unfolding w'_def by (subst connect_restore [OF Some assms(1-5)], simp)+
  with Some show ?thesis by simp
qed

text \<open>The witness of C6: tenant 123 has a blob in the store and no session.\<close>

theorem connect_restores_or_pairs_witness:
  "activeSockets world_stored (sanitize ''123'') = None
   \<and> \<not> global_flags world_stored (''connecting_'' @ sanitize ''123'')
   \<and> throws env0 LocalCache = None \<and> throws env0 AuthState = None
   \<and> throws env0 MakeSocket = None
   \<and> mongo_sessions world_stored (sanitize ''123'') = Some ''blob''
   \<and> sessionDirs (inconnuboyPair env0 ''123'' (Some 0) world_stored) ''123'' = Some (Some ''blob'')
   \<and> timers (inconnuboyPair env0 ''123'' (Some 0) world_stored) = []
   \<and> sent (sinks (inconnuboyPair env0 ''123'' (Some 0) world_stored) 0) = [(200, B_reconnecting)]"
proof -
  have h: "activeSockets world_stored (sanitize ''123'') = None"
    "\<not> global_flags world_stored (''connecting_'' @ sanitize ''123'')"
    "throws env0 LocalCache = None" "throws env0 AuthState = None"
    "throws env0 MakeSocket = None"
    by (simp_all add: world_stored_def world0_def env0_def)
  have s: "sanitize ''123'' = ''123''"
    by (simp add: sanitize_def isDigit_def)
  have m: "mongo_sessions world_stored (sanitize ''123'') = Some ''blob''"
    by (simp add: s world_stored_def world0_def)
  note t = connect_restores_or_pairs [where res = "Some 0", OF h]
  have a: "sessionDirs (inconnuboyPair env0 ''123'' (Some 0) world_stored) ''123''
             = Some (Some ''blob'')"
    "timers (inconnuboyPair env0 ''123'' (Some 0) world_stored) = []"
    "sent (sinks (inconnuboyPair env0 ''123'' (Some 0) world_stored) 0) = [(200, B_reconnecting)]"
    using t m by (simp_all add: s world_stored_def world0_def deliver_def json_def fresh_res_def)
  show ?thesis
    by (intro conjI h m a)
qed

section \<open>The reconnection policy\<close>

lemmas listener_defs =
  emit_connection_update_def autoRestart_listener_def connection_listener_def
  unregister_def deleteSessionFromMongoDB_def removeNumberFromMongoDB_def
  removeAllListeners_def inconnuLog_def

lemma unlink_world:
  assumes "sockets w s = Some sk" and "listening sk"
    and "connection upd = Some Close" and "isManualUnlink upd"
  shows "emit_connection_update env s upd w =
           w\<lparr>activeSockets := (activeSockets w)(sanitize (for_number sk) := None),
             socketCreationTime := (socketCreationTime w)(sanitize (for_number sk) := None),
             mongo_sessions := (mongo_sessions w)(sanitize (for_number sk) := None),
             mongo_numbers := mongo_numbers w - {sanitize (for_number sk)},
             sockets := (sockets w)(s \<mapsto> sk\<lparr>listening := False\<rparr>),
             logs := logs (emit_connection_update env s upd w)\<rparr>"
  using assms by (simp add: listener_defs Let_def)

text \<open>
  C4. A close event with status code 401, or whose error message contains \<open>401\<close>,
  on a session whose listeners are attached: the tenant is removed from
  \<open>activeSockets\<close> and \<open>socketCreationTime\<close>, its blob is deleted from the store, it is
  removed from the roster, and the listeners of the session are detached. No reconnect
  is attempted: no socket is created, no timer is set, no time is spent waiting, no lock
  is touched, and every later event on that session is ignored.
\<close>

theorem manual_unlink:
  fixes env :: env and upd2 :: update
  assumes "sockets w s = Some sk" and "listening sk"
    and "connection upd = Some Close" and "isManualUnlink upd"
  defines "n \<equiv> sanitize (for_number sk)"
    and "w' \<equiv> emit_connection_update env s upd w"
  shows "activeSockets w' n = None \<and> socketCreationTime w' n = None
       \<and> mongo_sessions w' n = None \<and> n \<notin> mongo_numbers w'
       \<and> map_option listening (sockets w' s) = Some False
       \<and> next_socket w' = next_socket w \<and> timers w' = timers w
       \<and> clock w' = clock w \<and> global_flags w' = global_flags w
       \<and> emit_connection_update env s upd2 w' = w'"
proof -
  note eq = unlink_world [OF assms(1-4), of env, folded w'_def n_def]
  have f: "activeSockets w' n = None" "socketCreationTime w' n = None"
    "mongo_sessions w' n = None" "n \<notin> mongo_numbers w'"
    "map_option listening (sockets w' s) = Some False"
    "next_socket w' = next_socket w" "timers w' = timers w"
    "clock w' = clock w" "global_flags w' = global_flags w"
    by (subst eq, simp)+
  have "sockets w' s = Some (sk\<lparr>listening := False\<rparr>)"
    by (subst eq) simp
  then have l: "emit_connection_update env s upd2 w' = w'"
    by (simp add: emit_connection_update_def)
  show ?thesis
    by (intro conjI f l)
qed

text \<open>The witness of C4: the session of 123 is closed with status 401.\<close>

theorem manual_unlink_witness:
  "sockets world_registered 0
     = Some \<lparr>for_number = ''123'', usePairingCode = False, creds = Some ''blob'',
             restartAttempts = 0, listening = True, ws_closed = False\<rparr>
   \<and> connection unauthorized = Some Close \<and> isManualUnlink unauthorized
   \<and> mongo_sessions world_registered ''123'' = Some ''blob''
   \<and> ''123'' \<in> mongo_numbers world_registered
   \<and> activeSockets world_registered ''123'' = Some 0
   \<and> activeSockets (emit_connection_update env0 0 unauthorized world_registered) ''123'' = None
   \<and> mongo_sessions (emit_connection_update env0 0 unauthorized world_registered) ''123'' = None
   \<and> ''123'' \<notin> mongo_numbers (emit_connection_update env0 0 unauthorized world_registered)"
proof -
  have h1: "sockets world_registered 0
     = Some \<lparr>for_number = ''123'', usePairingCode = False, creds = Some ''blob'',
             restartAttempts = 0, listening = True, ws_closed = False\<rparr>"
    by (simp add: world_registered_def world_stored_def world0_def)
  have h2: "listening \<lparr>for_number = ''123'', usePairingCode = False, creds = Some ''blob'',
             restartAttempts = 0, listening = True, ws_closed = False\<rparr>"
    by simp
  have h3: "connection unauthorized = Some Close"
    by (simp add: unauthorized_def)
  have h4: "isManualUnlink unauthorized"
    by (simp add: unauthorized_def isManualUnlink_def)
  have b: "mongo_sessions world_registered ''123'' = Some ''blob''"
    "''123'' \<in> mongo_numbers world_registered"
    "activeSockets world_registered ''123'' = Some 0"
    by (simp_all add: world_registered_def world_stored_def world0_def)
  note t = manual_unlink [OF h1 h2 h3 h4, where env = env0]
  have a: "activeSockets (emit_connection_update env0 0 unauthorized world_registered) ''123'' = None"
    "mongo_sessions (emit_connection_update env0 0 unauthorized world_registered) ''123'' = None"
    "''123'' \<notin> mongo_numbers (emit_connection_update env0 0 unauthorized world_registered)"
    using t by (simp_all add: sanitize_def isDigit_def)
  show ?thesis
    by (intro conjI h1 h3 h4 b a)
qed

text \<open>
  C9. A closure with status code 408 is to be left alone: no reconnect, store and roster
  untouched. The session of tenant 123 is closed by a time-out with status code 408
  whose message names the address \<open>2a03:2880:f401:...\<close>. The test for a manual unlink
  comes first and looks for \<open>401\<close> anywhere in the message, so the closure is taken for
  an unlink: the tenant loses its Registry entry, its credential blob and its place in
  the roster.
\<close>

theorem timeout_taken_for_unlink:
  "connection timed_out = Some Close \<and> statusCode timed_out = Some 408
   \<and> activeSockets world_registered ''123'' = Some 0
   \<and> mongo_sessions world_registered ''123'' = Some ''blob''
   \<and> ''123'' \<in> mongo_numbers world_registered
   \<and> activeSockets (emit_connection_update env0 0 timed_out world_registered) ''123'' = None
   \<and> mongo_sessions (emit_connection_update env0 0 timed_out world_registered) ''123'' = None
   \<and> ''123'' \<notin> mongo_numbers (emit_connection_update env0 0 timed_out world_registered)"
  by code_simp

text \<open>
  Where the closure is not taken for a manual unlink (its status code is not 401 and
  its message does not contain \<open>401\<close>), a closure with status code 408, or whose message
  contains \<open>QR refs attempts ended\<close>, changes nothing but the log: the sockets with their
  restart counters and listeners, the Registry, the credential store, the roster, the
  local cache, the timers, the locks and the clock are as before, and no socket is
  created.
\<close>

lemma expected_closure_no_action:
  fixes env :: env
  assumes "sockets w s = Some sk" and "listening sk"
    and "connection upd = Some Close" and "isNormalError upd" and "\<not> isManualUnlink upd"
  defines "w' \<equiv> emit_connection_update env s upd w"
  shows "sockets w' = sockets w \<and> activeSockets w' = activeSockets w
       \<and> socketCreationTime w' = socketCreationTime w
       \<and> mongo_sessions w' = mongo_sessions w \<and> mongo_numbers w' = mongo_numbers w
       \<and> sessionDirs w' = sessionDirs w \<and> timers w' = timers w
       \<and> next_socket w' = next_socket w \<and> global_flags w' = global_flags w
       \<and> clock w' = clock w \<and> sinks w' = sinks w"
  unfolding w'_def using assms(1-5)
  by (simp add: listener_defs Let_def)

text \<open>So it is when the pairing code of 123 expires.\<close>

lemma pairing_expiry_no_action:
  "isNormalError pairing_expired \<and> \<not> isManualUnlink pairing_expired
   \<and> sockets (emit_connection_update env0 0 pairing_expired world_registered)
       = sockets world_registered
   \<and> mongo_sessions (emit_connection_update env0 0 pairing_expired world_registered)
       = mongo_sessions world_registered
   \<and> next_socket (emit_connection_update env0 0 pairing_expired world_registered) = 1"
proof -
  have h1: "sockets world_registered 0
     = Some \<lparr>for_number = ''123'', usePairingCode = False, creds = Some ''blob'',
             restartAttempts = 0, listening = True, ws_closed = False\<rparr>"
    by (simp add: world_registered_def world_stored_def world0_def)
  have h2: "listening \<lparr>for_number = ''123'', usePairingCode = False, creds = Some ''blob'',
             restartAttempts = 0, listening = True, ws_closed = False\<rparr>"
    by simp
  have h3: "connection pairing_expired = Some Close"
    by (simp add: pairing_expired_def)
  have h4: "isNormalError pairing_expired"
    by (simp add: pairing_expired_def isNormalError_def)
  have h5: "\<not> isManualUnlink pairing_expired"
    by (simp add: pairing_expired_def isManualUnlink_def message_includes_def startsWith_def)
  note t = expected_closure_no_action [OF h1 h2 h3 h4 h5, where env = env0]
  have n: "next_socket world_registered = 1"
    by (simp add: world_registered_def world_stored_def world0_def)
  have a: "sockets (emit_connection_update env0 0 pairing_expired world_registered)
       = sockets world_registered"
    "mongo_sessions (emit_connection_update env0 0 pairing_expired world_registered)
       = mongo_sessions world_registered"
    "next_socket (emit_connection_update env0 0 pairing_expired world_registered) = 1"
    using t n by simp_all
  show ?thesis
    by (intro conjI h4 h5 a)
qed

subsection \<open>Unexpected closures\<close>

text \<open>A connect that takes the lock and meets no exception leaves a ready session.\<close>

lemma connect_session_ready:
  assumes "activeSockets w (sanitize number) = None"
    and "\<not> global_flags w (''connecting_'' @ sanitize number)"
    and "throws env LocalCache = None" and "throws env AuthState = None"
    and "throws env MakeSocket = None"
  shows "session_ready (sanitize number) (next_socket w) (inconnuboyPair env number res w)"
proof (cases "mongo_sessions w (sanitize number)")
  case None
  show ?thesis
    unfolding session_ready_def
    by (subst connect_new [OF None assms], simp)+
next
  case (Some blob)
  show ?thesis
    unfolding session_ready_def
    by (subst connect_restore [OF Some assms], simp)+
qed

lemma session_ready_log:
  "session_ready n s (inconnuLog m t w) = session_ready n s w"
  by (simp add: session_ready_def inconnuLog_def)

text \<open>
  An unexpected closure of a ready session: its listener counts one attempt on the old
  socket, unregisters it, detaches its listeners, waits ten seconds and calls
  \<open>inconnuboyPair\<close> with a mock sink. That call creates the next socket, whose own
  counter starts at 0: the session is ready again.
\<close>

lemma unexpected_close_reconnects:
  assumes "session_ready n s w"
    and "connection upd = Some Close"
    and "\<not> isManualUnlink upd" and "\<not> isNormalError upd"
    and "throws env LocalCache = None" and "throws env AuthState = None"
    and "throws env MakeSocket = None"
  shows "session_ready n (Suc s) (close_current env n upd w)"
proof -
  from assms(1) obtain sk where sk: "sockets w s = Some sk" "listening sk"
      "sanitize (for_number sk) = n" "restartAttempts sk = 0"
    and act: "activeSockets w n = Some s" and nx: "next_socket w = Suc s"
    and fl: "\<not> global_flags w (''connecting_'' @ n)"
    by (auto simp: session_ready_def split: option.splits)
  define w7 where "w7 =
     w\<lparr>logs := logs w @ [(Debug, ''Connection update for '' @ for_number sk),
                        (Warning, ''Connection closed for '' @ for_number sk),
                        (Warning, ''Unexpected connection lost for '' @ for_number sk
                                    @ '', attempting to reconnect in 10 seconds...'')],
       activeSockets := (activeSockets w)(n := None),
       socketCreationTime := (socketCreationTime w)(n := None),
       sockets := (sockets w)(s \<mapsto> sk\<lparr>restartAttempts := 1, listening := False\<rparr>),
       clock := clock w + 10000,
       sinks := (sinks w)(next_sink w := fresh_res True),
       next_sink := Suc (next_sink w)\<rparr>"
  have st: "statusCode upd \<noteq> Some 401"
    using assms(3) by (auto simp: isManualUnlink_def)
  have step: "close_current env n upd w =
      inconnuLog (''Reconnection initiated for '' @ for_number sk) Success
        (inconnuboyPair env (for_number sk) (Some (next_sink w)) w7)"
    using sk act assms(2-4) st
    by (simp add: close_current_def listener_defs set_restartAttempts_def delay_def
          new_mockRes_def maxRestartAttempts_def Let_def w7_def)
  have h: "activeSockets w7 (sanitize (for_number sk)) = None"
    "\<not> global_flags w7 (''connecting_'' @ sanitize (for_number sk))"
    using fl by (simp_all add: w7_def sk(3))
  have "session_ready (sanitize (for_number sk)) (next_socket w7)
          (inconnuboyPair env (for_number sk) (Some (next_sink w)) w7)"
    by (rule connect_session_ready [OF h assms(5-7)])
  moreover have "next_socket w7 = Suc s"
    by (simp add: w7_def nx)
  ultimately show ?thesis
    by (simp add: step session_ready_log sk(3))
qed

text \<open>So any number of consecutive unexpected closures is answered by as many reconnects.\<close>

lemma retries_unbounded:
  assumes "session_ready n s w"
    and "connection upd = Some Close"
    and "\<not> isManualUnlink upd" and "\<not> isNormalError upd"
    and "throws env LocalCache = None" and "throws env AuthState = None"
    and "throws env MakeSocket = None"
  shows "session_ready n (s + k) ((close_current env n upd ^^ k) w)"
proof (induction k)
  case 0
  show ?case using assms(1) by simp
next
  case (Suc k)
  show ?case
    using unexpected_close_reconnects [OF Suc.IH assms(2-7)] by simp
qed

text \<open>
  The listener itself stops at the maximum: with its counter at 3 or more it only logs.
  No socket gets there, since the first retry detaches the listener.
\<close>

lemma max_attempts_stops:
  assumes "sockets w s = Some sk" and "listening sk"
    and "connection upd = Some Close"
    and "\<not> isManualUnlink upd" and "\<not> isNormalError upd"
    and "maxRestartAttempts \<le> restartAttempts sk"
  shows "emit_connection_update env s upd w
           = w\<lparr>logs := logs (emit_connection_update env s upd w)\<rparr>"
  using assms by (simp add: listener_defs Let_def)

text \<open>
  C5. After three consecutive unexpected closures a fourth is to schedule no retry.
  Tenant 123 has a stored blob and a live session (socket 0); its session is closed
  unexpectedly four times in a row (status 428, no \<open>open\<close> in between). The third
  closure leaves socket 3 registered, and the fourth is retried as well: it creates and
  registers socket 4, whose counter is 0.
\<close>

theorem fourth_closure_retries:
  "activeSockets (closures 3) ''123'' = Some 3 \<and> next_socket (closures 3) = 4
   \<and> activeSockets (closures 4) ''123'' = Some 4 \<and> next_socket (closures 4) = 5
   \<and> map_option restartAttempts (sockets (closures 4) 4) = Some 0"
proof -
  have r: "session_ready ''123'' 0 world_registered"
    by (simp add: session_ready_def world_registered_def world_stored_def world0_def
          sanitize_def isDigit_def)
  have u: "connection connection_lost = Some Close"
    "\<not> isManualUnlink connection_lost" "\<not> isNormalError connection_lost"
    by (simp_all add: connection_lost_def isManualUnlink_def isNormalError_def
          message_includes_def startsWith_def)
  have e: "throws env0 LocalCache = None" "throws env0 AuthState = None"
    "throws env0 MakeSocket = None"
    by (simp_all add: env0_def)
  have "session_ready ''123'' (0 + 3) (closures 3)"
    unfolding closures_def by (rule retries_unbounded [OF r u e])
  moreover have "session_ready ''123'' (0 + 4) (closures 4)"
    unfolding closures_def by (rule retries_unbounded [OF r u e])
  ultimately show ?thesis
    by (auto simp: session_ready_def split: option.splits)
qed

section \<open>Disconnecting a tenant\<close>

lemmas disconnect_defs =
  disconnect_def disconnect_try_def ws_close_def removeAllListeners_def unregister_def
  removeNumberFromMongoDB_def deleteSessionFromMongoDB_def inconnuLog_def res_json_def

lemma disconnect_not_found:
  assumes "number \<noteq> []" and "activeSockets w (sanitize number) = None"
  shows "disconnect env (Some number) res w = res_json res 404 B_not_found w"
  using assms by (simp add: disconnect_def Let_def)

text \<open>
  C7. For a request that names a number, and when closing the transport does not throw:
  if the tenant has no entry in \<open>activeSockets\<close>, the route answers 404 and changes
  nothing else; if it has one, the transport of its socket is closed and the listeners
  are detached, the tenant is removed from \<open>activeSockets\<close> and
  \<open>socketCreationTime\<close>, its blob and its roster entry are deleted from the store,
  the route answers with success, and a second disconnect of the same number right
  after it answers 404.
\<close>

theorem disconnect_then_not_found:
  fixes env :: env and res res' :: nat and w :: world
  assumes "number \<noteq> []" and "throws env WsClose = None"
  defines "n \<equiv> sanitize number"
    and "w' \<equiv> disconnect env (Some number) res w"
  shows "case activeSockets w n of
           None \<Rightarrow> w' = res_json res 404 B_not_found w
         | Some s \<Rightarrow>
             sockets w' s
               = map_option (\<lambda>sk. sk\<lparr>listening := False, ws_closed := True\<rparr>) (sockets w s)
           \<and> activeSockets w' n = None \<and> socketCreationTime w' n = None
           \<and> mongo_sessions w' n = None \<and> n \<notin> mongo_numbers w'
           \<and> sinks w' = (sinks w)(res := json 200 B_disconnected (sinks w res))
           \<and> disconnect env (Some number) res' w' = res_json res' 404 B_not_found w'"
proof (cases "activeSockets w n")
  case None
  then show ?thesis
    unfolding w'_def n_def using assms(1) by (simp add: disconnect_not_found)
next
  case (Some s)
  have f: "sockets w' s
               = map_option (\<lambda>sk. sk\<lparr>listening := False, ws_closed := True\<rparr>) (sockets w s)"
    "activeSockets w' n = None" "socketCreationTime w' n = None"
    "mongo_sessions w' n = None" "n \<notin> mongo_numbers w'"
    "sinks w' = (sinks w)(res := json 200 B_disconnected (sinks w res))"
    using Some assms(1,2) unfolding w'_def n_def
    by (simp_all add: disconnect_defs Let_def split: option.splits)
  have "disconnect env (Some number) res' w' = res_json res' 404 B_not_found w'"
    using assms(1) f(2) unfolding n_def by (rule disconnect_not_found)
  with Some f show ?thesis by simp
qed

text \<open>The witness of C7: the registered tenant 123 is disconnected twice.\<close>

theorem disconnect_then_not_found_witness:
  "''+123'' \<noteq> [] \<and> throws env0 WsClose = None
   \<and> activeSockets world_registered (sanitize ''+123'') = Some 0
   \<and> mongo_sessions (disconnect env0 (Some ''+123'') 1 world_registered) ''123'' = None
   \<and> sent (sinks (disconnect env0 (Some ''+123'') 1 world_registered) 1) = [(200, B_disconnected)]
   \<and> sent (sinks (disconnect env0 (Some ''+123'') 2
                     (disconnect env0 (Some ''+123'') 1 world_registered)) 2)
       = [(404, B_not_found)]"
proof -
  have h1: "''+123'' \<noteq> []" by simp
  have h2: "throws env0 WsClose = None" by (simp add: env0_def)
  have s: "sanitize ''+123'' = ''123''"
    by (simp add: sanitize_def isDigit_def)
  have r: "activeSockets world_registered (sanitize ''+123'') = Some 0"
    by (simp add: s world_registered_def world_stored_def world0_def)
  have k: "sinks world_registered = (\<lambda>i. fresh_res False)"
    by (simp add: world_registered_def world_stored_def world0_def)
  note t = disconnect_then_not_found [OF h1 h2, where w = world_registered and res = 1 and res' = 2]
  have a: "mongo_sessions (disconnect env0 (Some ''+123'') 1 world_registered) ''123'' = None"
    "sent (sinks (disconnect env0 (Some ''+123'') 1 world_registered) 1) = [(200, B_disconnected)]"
    "sent (sinks (disconnect env0 (Some ''+123'') 2
                     (disconnect env0 (Some ''+123'') 1 world_registered)) 2)
       = [(404, B_not_found)]"
    using t r by (simp_all add: s k res_json_def json_def fresh_res_def)
  show ?thesis
    by (intro conjI h1 h2 r a)
qed

section \<open>Dispatching a message\<close>


















text \<open>
  C8. An exception of a handler is to be caught and logged on both paths. The only
  registered command is triggered on \<open>body\<close> and its handler throws \<open>bang\<close>. For the
  message \<open>hello\<close> the listener invokes it on the event path, and the exception ends
  as the rejection of a promise that nobody handles: nothing is logged.
\<close>

theorem event_handler_exception_unlogged:
  "messages_upsert rt0 cfg0 ucfg0 [echo] bot_id [text_message ''hello'']
     = [IncrementStats ''messagesReceived'', Invoke 0 ByEvent, UnhandledRejection ''bang'']"
  by code_simp

text \<open>
  On the command path the \<open>try\<close>/\<open>catch\<close> around the call logs the exception, and the
  rest of the listener runs.
\<close>

lemma command_handler_exception_logged:
  "messages_upsert rt0 cfg0 ucfg0 [boom, logger] bot_id [text_message ''.boom'']
     = [IncrementStats ''commandsUsed'', Invoke 0 ByCommand,
        Logged Error ''PLUGIN ERROR: boom'', IncrementStats ''messagesReceived'',
        Invoke 1 ByEvent]"
  by code_simp

text \<open>
  Two more facts: a command that has both a pattern and a trigger is invoked by both
  paths; and a no-break space after the command is trimmed like a space.
\<close>

lemma handler_invoked_by_both_paths:
  "messages_upsert rt0 cfg0 ucfg0 [logger] bot_id [text_message ''.log'']
     = [IncrementStats ''commandsUsed'', Invoke 0 ByCommand,
        IncrementStats ''messagesReceived'', Invoke 0 ByEvent]"
  by code_simp

lemma no_break_space_is_trimmed:
  "cmdName rt0 cfg0 (js ''.menu'' @ [0xA0]) = js ''menu''"
  by code_simp


end
